theory Spec2Isabelle
  imports Complex_Main
begin

section \<open>JavaScript strings\<close>

text \<open>
  A JavaScript string is a sequence of UTF-16 code units. \<open>length\<close> is the number of
  code units, as \<^verbatim>\<open>String.prototype.length\<close> is. ASCII literals are written through
  \<open>str\<close>.
\<close>

type_synonym jsstring = "nat list"

definition str :: "string \<Rightarrow> jsstring" where
  "str s = map of_char s"

text \<open>
  \<^verbatim>\<open>toLowerCase\<close> and \<^verbatim>\<open>toUpperCase\<close>. The case mapping of every code unit whose
  image contains an ASCII character is written out (the ASCII letters, and the few
  non-ASCII code points of the Unicode tables that map into ASCII). Every other code unit
  is left as it is: its JavaScript image is again free of ASCII characters, so every
  comparison with the ASCII names of this program comes out as in JavaScript.
\<close>

definition lowerUnit :: "nat \<Rightarrow> jsstring" where
  "lowerUnit u =
     (if 65 \<le> u \<and> u \<le> 90 then [u + 32]
      else if u = 304 then [105, 775]
      else if u = 8490 then [107]
      else [u])"

definition toLowerCase :: "jsstring \<Rightarrow> jsstring" where
  "toLowerCase s = concat (map lowerUnit s)"

definition upperUnit :: "nat \<Rightarrow> jsstring" where
  "upperUnit u =
     (if 97 \<le> u \<and> u \<le> 122 then [u - 32]
      else if u = 223 then [83, 83]
      else if u = 305 then [73]
      else if u = 329 then [700, 78]
      else if u = 383 then [83]
      else if u = 496 then [74, 780]
      else if u = 7830 then [72, 817]
      else if u = 7831 then [84, 776]
      else if u = 7832 then [87, 778]
      else if u = 7833 then [89, 778]
      else if u = 7834 then [65, 702]
      else if u = 64256 then [70, 70]
      else if u = 64257 then [70, 73]
      else if u = 64258 then [70, 76]
      else if u = 64259 then [70, 70, 73]
      else if u = 64260 then [70, 70, 76]
      else if u = 64261 then [83, 84]
      else if u = 64262 then [83, 84]
      else [u])"

definition toUpperCase :: "jsstring \<Rightarrow> jsstring" where
  "toUpperCase s = concat (map upperUnit s)"

fun startsWith :: "'a list \<Rightarrow> 'a list \<Rightarrow> bool" where
  "startsWith s [] = True"
| "startsWith [] (p # ps) = False"
| "startsWith (x # xs) (p # ps) = (x = p \<and> startsWith xs ps)"

definition endsWith :: "'a list \<Rightarrow> 'a list \<Rightarrow> bool" where
  "endsWith s p = startsWith (rev s) (rev p)"

text \<open>\<^verbatim>\<open>s.includes(p)\<close>: \<open>p\<close> occurs in \<open>s\<close> as a contiguous block.\<close>

fun js_includes :: "'a list \<Rightarrow> 'a list \<Rightarrow> bool" where
  "js_includes [] p = (p = [])"
| "js_includes (x # xs) p = (startsWith (x # xs) p \<or> js_includes xs p)"

section \<open>Phonemes and mouth-shape tables\<close>

datatype Phoneme = Ph_A | Ph_E | Ph_I | Ph_O | Ph_U | Ph_N | Ph_closed

definition VRM_MOUTH_SHAPES :: "Phoneme \<Rightarrow> jsstring list" where
  "VRM_MOUTH_SHAPES p =
     (case p of
        Ph_A \<Rightarrow> [str ''aa'', str ''a'', str ''mouth_a'', str ''vrc.v_aa'', str ''fcl_mth_a'']
      | Ph_E \<Rightarrow> [str ''ee'', str ''e'', str ''mouth_e'', str ''vrc.v_ee'', str ''fcl_mth_e'']
      | Ph_I \<Rightarrow> [str ''ih'', str ''i'', str ''mouth_i'', str ''vrc.v_ih'', str ''fcl_mth_i'']
      | Ph_O \<Rightarrow> [str ''oh'', str ''o'', str ''mouth_o'', str ''vrc.v_oh'', str ''fcl_mth_o'']
      | Ph_U \<Rightarrow> [str ''ou'', str ''u'', str ''mouth_u'', str ''vrc.v_ou'', str ''fcl_mth_u'']
      | Ph_N \<Rightarrow> [str ''nn'', str ''n'']
      | Ph_closed \<Rightarrow> [])"

text \<open>The Japanese morph names of the MMD table are written as UTF-16 code units.\<close>

definition MMD_MOUTH_SHAPES :: "Phoneme \<Rightarrow> jsstring list" where
  "MMD_MOUTH_SHAPES p =
     (case p of
        Ph_A \<Rightarrow> [[12354], str ''a'']
      | Ph_E \<Rightarrow> [[12360], str ''e'']
      | Ph_I \<Rightarrow> [[12356], str ''i'']
      | Ph_O \<Rightarrow> [[12362], str ''o'']
      | Ph_U \<Rightarrow> [[12358], str ''u'']
      | Ph_N \<Rightarrow> [[12435], str ''n'']
      | Ph_closed \<Rightarrow> [])"

section \<open>Mouth-shape adapters\<close>

text \<open>The calls of the \<^verbatim>\<open>LipSyncTarget\<close> interface.\<close>

datatype mouth_call = SetMouthShape Phoneme real | ResetMouth

subsection \<open>VRM adapter\<close>

text \<open>
  \<^verbatim>\<open>createVRMLipSyncAdapter\<close>. The \<^verbatim>\<open>setExpression\<close> callback writes the weight of the
  named expression (the VRM renderer passes \<^verbatim>\<open>expressionManager.setValue\<close>); the
  expression weights are the store \<open>weights\<close>. The closure variable \<^verbatim>\<open>lastPhoneme\<close> is
  the adapter's own state.
\<close>

fun findIndex :: "('a \<Rightarrow> bool) \<Rightarrow> 'a list \<Rightarrow> nat option" where
  "findIndex P [] = None"
| "findIndex P (x # xs) =
     (if P x then Some 0 else map_option Suc (findIndex P xs))"

fun findShapeIn :: "jsstring list \<Rightarrow> jsstring list \<Rightarrow> jsstring option" where
  "findShapeIn availableExpressions [] = None"
| "findShapeIn availableExpressions (candidate # rest) =
     (case findIndex (\<lambda>e. e = candidate \<or> js_includes e candidate)
             (map toLowerCase availableExpressions) of
        Some index \<Rightarrow> Some (availableExpressions ! index)
      | None \<Rightarrow> findShapeIn availableExpressions rest)"

definition findShape :: "jsstring list \<Rightarrow> Phoneme \<Rightarrow> jsstring option" where
  "findShape availableExpressions p = findShapeIn availableExpressions (VRM_MOUTH_SHAPES p)"

text \<open>
  The precomputed \<^verbatim>\<open>shapeMap\<close>: filled for A, E, I, O, U and N only, and only with a
  truthy (non-empty) name.
\<close>

definition shapeMap :: "jsstring list \<Rightarrow> Phoneme \<Rightarrow> jsstring option" where
  "shapeMap availableExpressions p =
     (if p = Ph_closed then None
      else case findShape availableExpressions p of
             Some shape \<Rightarrow> if shape \<noteq> [] then Some shape else None
           | None \<Rightarrow> None)"

record vrm_adapter =
  weights :: "jsstring \<Rightarrow> real"
  lastPhoneme :: Phoneme

definition createVRMLipSyncAdapter :: "(jsstring \<Rightarrow> real) \<Rightarrow> vrm_adapter" where
  "createVRMLipSyncAdapter w0 = \<lparr>weights = w0, lastPhoneme = Ph_closed\<rparr>"

definition setExpression :: "jsstring \<Rightarrow> real \<Rightarrow> vrm_adapter \<Rightarrow> vrm_adapter" where
  "setExpression name w a = a\<lparr>weights := (weights a)(name := w)\<rparr>"

definition vrm_setMouthShape :: "jsstring list \<Rightarrow> Phoneme \<Rightarrow> real \<Rightarrow> vrm_adapter \<Rightarrow> vrm_adapter" where
  "vrm_setMouthShape av p w a =
     (let a1 = (if lastPhoneme a \<noteq> p \<and> lastPhoneme a \<noteq> Ph_closed
                then (case shapeMap av (lastPhoneme a) of
                        Some lastShape \<Rightarrow> setExpression lastShape 0 a
                      | None \<Rightarrow> a)
                else a);
          a2 = (case shapeMap av p of
                  Some shape \<Rightarrow> setExpression shape w a1
                | None \<Rightarrow> a1)
      in a2\<lparr>lastPhoneme := p\<rparr>)"

definition vrm_resetMouth :: "jsstring list \<Rightarrow> vrm_adapter \<Rightarrow> vrm_adapter" where
  "vrm_resetMouth av a =
     (let a1 = (if lastPhoneme a \<noteq> Ph_closed
                then (case shapeMap av (lastPhoneme a) of
                        Some shape \<Rightarrow> setExpression shape 0 a
                      | None \<Rightarrow> a)
                else a)
      in a1\<lparr>lastPhoneme := Ph_closed\<rparr>)"

fun vrm_call :: "jsstring list \<Rightarrow> mouth_call \<Rightarrow> vrm_adapter \<Rightarrow> vrm_adapter" where
  "vrm_call av (SetMouthShape p w) a = vrm_setMouthShape av p w a"
| "vrm_call av ResetMouth a = vrm_resetMouth av a"

text \<open>The expressions the adapter controls: the names in its \<^verbatim>\<open>shapeMap\<close>.\<close>

definition vrm_controlled :: "jsstring list \<Rightarrow> jsstring \<Rightarrow> bool" where
  "vrm_controlled av name = (\<exists>p. shapeMap av p = Some name)"

definition vrm_atMostOneActive :: "jsstring list \<Rightarrow> vrm_adapter \<Rightarrow> bool" where
  "vrm_atMostOneActive av a =
     (\<forall>m n. vrm_controlled av m \<and> vrm_controlled av n \<and>
            weights a m \<noteq> 0 \<and> weights a n \<noteq> 0 \<longrightarrow> m = n)"

subsection \<open>MMD adapter\<close>

text \<open>
  \<^verbatim>\<open>createMMDLipSyncAdapter\<close>. \<open>dict\<close> is \<^verbatim>\<open>mesh.morphTargetDictionary || {}\<close>,
  \<open>influences\<close> the shared array \<^verbatim>\<open>mesh.morphTargetInfluences || []\<close>;
  \<^verbatim>\<open>influences[i] !== undefined\<close> holds for the indices inside the array.
\<close>

record mmd_mesh =
  morphTargetDictionary :: "(jsstring \<rightharpoonup> int) option"
  morphTargetInfluences :: "real list option"

record mmd_adapter =
  influences :: "real list"
  lastIndex :: int

definition mesh_dict :: "mmd_mesh \<Rightarrow> (jsstring \<rightharpoonup> int)" where
  "mesh_dict mesh = (case morphTargetDictionary mesh of Some d \<Rightarrow> d | None \<Rightarrow> Map.empty)"

definition createMMDLipSyncAdapter :: "mmd_mesh \<Rightarrow> mmd_adapter" where
  "createMMDLipSyncAdapter mesh =
     \<lparr>influences = (case morphTargetInfluences mesh of Some xs \<Rightarrow> xs | None \<Rightarrow> []),
      lastIndex = - 1\<rparr>"

fun findMorphIn :: "(jsstring \<rightharpoonup> int) \<Rightarrow> jsstring list \<Rightarrow> int" where
  "findMorphIn dict [] = - 1"
| "findMorphIn dict (name # rest) =
     (case dict name of Some i \<Rightarrow> i | None \<Rightarrow> findMorphIn dict rest)"

definition findMorphIndex :: "(jsstring \<rightharpoonup> int) \<Rightarrow> Phoneme \<Rightarrow> int" where
  "findMorphIndex dict p = findMorphIn dict (MMD_MOUTH_SHAPES p)"

definition defined_at :: "real list \<Rightarrow> int \<Rightarrow> bool" where
  "defined_at xs i = (0 \<le> i \<and> nat i < length xs)"

definition mmd_setMouthShape :: "(jsstring \<rightharpoonup> int) \<Rightarrow> Phoneme \<Rightarrow> real \<Rightarrow> mmd_adapter \<Rightarrow> mmd_adapter" where
  "mmd_setMouthShape dict p w a =
     (let a1 = (if lastIndex a \<noteq> - 1 \<and> defined_at (influences a) (lastIndex a)
                then a\<lparr>influences := (influences a)[nat (lastIndex a) := 0]\<rparr>
                else a);
          index = findMorphIndex dict p
      in if index \<noteq> - 1 \<and> defined_at (influences a1) index
         then a1\<lparr>influences := (influences a1)[nat index := w], lastIndex := index\<rparr>
         else a1)"

definition mmd_resetMouth :: "mmd_adapter \<Rightarrow> mmd_adapter" where
  "mmd_resetMouth a =
     (let a1 = (if lastIndex a \<noteq> - 1 \<and> defined_at (influences a) (lastIndex a)
                then a\<lparr>influences := (influences a)[nat (lastIndex a) := 0]\<rparr>
                else a)
      in a1\<lparr>lastIndex := - 1\<rparr>)"

fun mmd_call :: "(jsstring \<rightharpoonup> int) \<Rightarrow> mouth_call \<Rightarrow> mmd_adapter \<Rightarrow> mmd_adapter" where
  "mmd_call dict (SetMouthShape p w) a = mmd_setMouthShape dict p w a"
| "mmd_call dict ResetMouth a = mmd_resetMouth a"

text \<open>The morph targets the adapter controls: the indices its lookup can resolve to.\<close>

definition mmd_controlled :: "(jsstring \<rightharpoonup> int) \<Rightarrow> real list \<Rightarrow> nat \<Rightarrow> bool" where
  "mmd_controlled dict xs i =
     (i < length xs \<and> (\<exists>p. findMorphIndex dict p = int i))"

definition mmd_atMostOneActive :: "(jsstring \<rightharpoonup> int) \<Rightarrow> mmd_adapter \<Rightarrow> bool" where
  "mmd_atMostOneActive dict a =
     (\<forall>i j. mmd_controlled dict (influences a) i \<and> mmd_controlled dict (influences a) j \<and>
            influences a ! i \<noteq> 0 \<and> influences a ! j \<noteq> 0 \<longrightarrow> i = j)"

section \<open>Numbers\<close>

text \<open>
  A JavaScript number is an IEEE 754 double. The model carries the numbers as reals.
  Where the program accumulates a number by repeated addition (the \<^verbatim>\<open>+=\<close> on a frame's
  duration), each addition is rounded to the nearest double by \<open>round_double\<close>; a single
  arithmetic expression of the program is read on the reals as it is written. The one
  computation that divides by a quantity that may be zero, the eased weight of the
  playback loop, is carried out in \<open>jsnum\<close>: the reals extended with the infinities and
  NaN, under the rules of IEEE 754 arithmetic for these special values (a zero divisor
  counts as \<open>+0\<close>).
\<close>

subsection \<open>Rounding to a double\<close>

definition pow2 :: "int \<Rightarrow> real" where
  "pow2 e = (if 0 \<le> e then 2 ^ nat e else 1 / 2 ^ nat (- e))"

text \<open>The binary exponent of a positive number: the \<open>e\<close> with \<open>2^e \<le> a < 2^(e+1)\<close>.\<close>

function exponent_above :: "real \<Rightarrow> int" where
  "exponent_above a = (if 2 \<le> a then exponent_above (a / 2) + 1 else 0)"
  by pat_completeness auto
termination
proof (relation "measure (\<lambda>a. nat \<lfloor>a\<rfloor>)")
  show "wf (measure (\<lambda>a::real. nat \<lfloor>a\<rfloor>))"
    by simp
next
  fix a :: real
  assume a: "2 \<le> a"
  have "a / 2 \<le> a - 1"
    using a by simp
  then have "\<lfloor>a / 2\<rfloor> \<le> \<lfloor>a - 1\<rfloor>"
    by (rule floor_mono)
  then have "\<lfloor>a / 2\<rfloor> < \<lfloor>a\<rfloor>"
    by simp
  moreover have "0 < \<lfloor>a\<rfloor>"
    using a by simp
  ultimately show "(a / 2, a) \<in> measure (\<lambda>a. nat \<lfloor>a\<rfloor>)"
    by simp
qed

function exponent_below :: "real \<Rightarrow> int" where
  "exponent_below a = (if 0 < a \<and> a < 1 then exponent_below (a * 2) - 1 else 0)"
  by pat_completeness auto
termination
proof (relation "measure (\<lambda>a. nat \<lceil>1 / a\<rceil>)")
  show "wf (measure (\<lambda>a::real. nat \<lceil>1 / a\<rceil>))"
    by simp
next
  fix a :: real
  assume a: "0 < a \<and> a < 1"
  then have "1 < 1 / a"
    by simp
  then have c2: "2 \<le> \<lceil>1 / a\<rceil>"
    by linarith
  have "1 / (a * 2) = (1 / a) / 2"
    by simp
  also have "\<dots> \<le> real_of_int \<lceil>1 / a\<rceil> / 2"
    by (simp add: divide_right_mono)
  also have "\<dots> \<le> real_of_int (\<lceil>1 / a\<rceil> - 1)"
    using c2 by simp
  finally have "1 / (a * 2) \<le> real_of_int (\<lceil>1 / a\<rceil> - 1)" .
  then have "\<lceil>1 / (a * 2)\<rceil> \<le> \<lceil>1 / a\<rceil> - 1"
    by (simp only: ceiling_le_iff)
  then show "(a * 2, a) \<in> measure (\<lambda>a. nat \<lceil>1 / a\<rceil>)"
    using c2 a by simp
qed

declare exponent_above.simps [simp del] exponent_below.simps [simp del]

definition binary_exponent :: "real \<Rightarrow> int" where
  "binary_exponent a = (if 1 \<le> a then exponent_above a else exponent_below a)"

text \<open>Rounding to the nearest integer, a tie going to the even one.\<close>

definition round_half_even :: "real \<Rightarrow> int" where
  "round_half_even m =
     (let f = \<lfloor>m\<rfloor> in
      if m - real_of_int f < 1 / 2 then f
      else if m - real_of_int f > 1 / 2 then f + 1
      else if even f then f else f + 1)"

text \<open>
  The double nearest to a real: 53 significant bits, the exponent not below that of the
  subnormal numbers, ties to even. Overflow to infinity is left out: the durations of
  this program stay far below \<open>2^1024\<close>.
\<close>

definition round_double :: "real \<Rightarrow> real" where
  "round_double x =
     (if x = 0 then 0
      else let a = \<bar>x\<bar>;
               e = max (binary_exponent a) (- 1022);
               ulp = pow2 (e - 52)
           in sgn x * (real_of_int (round_half_even (a / ulp)) * ulp))"

text \<open>\<^verbatim>\<open>a + b\<close> on two numbers.\<close>

definition js_plus :: "real \<Rightarrow> real \<Rightarrow> real" where
  "js_plus a b = round_double (a + b)"

subsection \<open>Infinities and NaN\<close>

datatype jsnum = Fin real | PosInf | NegInf | NaN

fun js_neg :: "jsnum \<Rightarrow> jsnum" where
  "js_neg (Fin a) = Fin (- a)"
| "js_neg PosInf = NegInf"
| "js_neg NegInf = PosInf"
| "js_neg NaN = NaN"

fun js_add :: "jsnum \<Rightarrow> jsnum \<Rightarrow> jsnum" where
  "js_add (Fin a) (Fin b) = Fin (a + b)"
| "js_add NaN y = NaN"
| "js_add x NaN = NaN"
| "js_add PosInf NegInf = NaN"
| "js_add NegInf PosInf = NaN"
| "js_add PosInf y = PosInf"
| "js_add NegInf y = NegInf"
| "js_add (Fin a) y = y"

definition js_sub :: "jsnum \<Rightarrow> jsnum \<Rightarrow> jsnum" where
  "js_sub x y = js_add x (js_neg y)"

definition signed_inf :: "bool \<Rightarrow> jsnum" where
  "signed_inf positive = (if positive then PosInf else NegInf)"

fun js_mul :: "jsnum \<Rightarrow> jsnum \<Rightarrow> jsnum" where
  "js_mul (Fin a) (Fin b) = Fin (a * b)"
| "js_mul NaN y = NaN"
| "js_mul x NaN = NaN"
| "js_mul PosInf (Fin b) = (if b = 0 then NaN else signed_inf (0 < b))"
| "js_mul NegInf (Fin b) = (if b = 0 then NaN else signed_inf (b < 0))"
| "js_mul (Fin a) PosInf = (if a = 0 then NaN else signed_inf (0 < a))"
| "js_mul (Fin a) NegInf = (if a = 0 then NaN else signed_inf (a < 0))"
| "js_mul PosInf PosInf = PosInf"
| "js_mul NegInf NegInf = PosInf"
| "js_mul PosInf NegInf = NegInf"
| "js_mul NegInf PosInf = NegInf"

fun js_div :: "jsnum \<Rightarrow> jsnum \<Rightarrow> jsnum" where
  "js_div (Fin a) (Fin b) =
     (if b \<noteq> 0 then Fin (a / b) else if a = 0 then NaN else signed_inf (0 < a))"
| "js_div NaN y = NaN"
| "js_div x NaN = NaN"
| "js_div PosInf (Fin b) = signed_inf (0 \<le> b)"
| "js_div NegInf (Fin b) = signed_inf (b < 0)"
| "js_div (Fin a) y = Fin 0"
| "js_div x y = NaN"

text \<open>\<^verbatim>\<open>Math.pow(x, 2)\<close>.\<close>

fun js_pow2 :: "jsnum \<Rightarrow> jsnum" where
  "js_pow2 (Fin a) = Fin (a * a)"
| "js_pow2 NaN = NaN"
| "js_pow2 x = PosInf"

text \<open>\<^verbatim>\<open>x < y\<close>: false as soon as one side is NaN.\<close>

fun js_lt :: "jsnum \<Rightarrow> jsnum \<Rightarrow> bool" where
  "js_lt (Fin a) (Fin b) = (a < b)"
| "js_lt NaN y = False"
| "js_lt x NaN = False"
| "js_lt x NegInf = False"
| "js_lt PosInf y = False"
| "js_lt x y = True"

text \<open>\<^verbatim>\<open>Math.min\<close> and \<^verbatim>\<open>Math.max\<close> return NaN as soon as one argument is NaN.\<close>

definition js_min :: "jsnum \<Rightarrow> jsnum \<Rightarrow> jsnum" where
  "js_min x y = (if x = NaN \<or> y = NaN then NaN else if js_lt y x then y else x)"

definition js_max :: "jsnum \<Rightarrow> jsnum \<Rightarrow> jsnum" where
  "js_max x y = (if x = NaN \<or> y = NaN then NaN else if js_lt x y then y else x)"

text \<open>A weight lies in the interval from 0 to 1.\<close>

fun in_unit_interval :: "jsnum \<Rightarrow> bool" where
  "in_unit_interval (Fin w) = (0 \<le> w \<and> w \<le> 1)"
| "in_unit_interval x = False"

section \<open>Heuristic phonemes\<close>

record LipFrame =
  phoneme :: Phoneme
  weight :: real
  duration :: real

record LipSyncConfig =
  charDuration :: real
  transitionDuration :: real
  speakingWeight :: real
  enabled :: bool

definition DEFAULT_CONFIG :: LipSyncConfig where
  "DEFAULT_CONFIG =
     \<lparr>charDuration = 80, transitionDuration = 50, speakingWeight = 7 / 10, enabled = True\<rparr>"

text \<open>
  \<^verbatim>\<open>for (const char of text)\<close> walks the string by code points: a high surrogate
  followed by a low surrogate is one character of two code units, every other code unit
  is a character of its own.
\<close>

definition isHighSurrogate :: "nat \<Rightarrow> bool" where
  "isHighSurrogate u = (55296 \<le> u \<and> u \<le> 56319)"

definition isLowSurrogate :: "nat \<Rightarrow> bool" where
  "isLowSurrogate u = (56320 \<le> u \<and> u \<le> 57343)"

fun chars :: "jsstring \<Rightarrow> jsstring list" where
  "chars [] = []"
| "chars [u] = [[u]]"
| "chars (u # v # rest) =
     (if isHighSurrogate u \<and> isLowSurrogate v then [u, v] # chars rest
      else [u] # chars (v # rest))"

text \<open>The class \<^verbatim>\<open>\s\<close> of a JavaScript regular expression.\<close>

definition isWhitespace :: "nat \<Rightarrow> bool" where
  "isWhitespace u =
     (u \<in> set [9, 10, 11, 12, 13, 32, 160, 5760, 8232, 8233, 8239, 8287, 12288, 65279]
      \<or> (8192 \<le> u \<and> u \<le> 8202))"

text \<open>The punctuation listed in the character class of \<^verbatim>\<open>getPhonemeForChar\<close>.\<close>

definition isPunctuation :: "nat \<Rightarrow> bool" where
  "isPunctuation u =
     (u \<in> set [65292, 12290, 65281, 65311, 12289, 65307, 65306, 34, 39, 65288, 65289,
               44, 46, 33, 63, 59, 58, 40, 41])"

text \<open>The regular expression is tested without the \<^verbatim>\<open>u\<close> flag: one code unit matches.\<close>

definition closedPattern_test :: "jsstring \<Rightarrow> bool" where
  "closedPattern_test char = list_ex (\<lambda>u. isPunctuation u \<or> isWhitespace u) char"

text \<open>
  The cast \<^verbatim>\<open>as Phoneme\<close> of a string; the program applies it to the names of the five
  vowels only.
\<close>

definition phonemeOfString :: "jsstring \<Rightarrow> Phoneme" where
  "phonemeOfString s =
     (if s = str ''A'' then Ph_A else if s = str ''E'' then Ph_E
      else if s = str ''I'' then Ph_I else if s = str ''O'' then Ph_O
      else if s = str ''U'' then Ph_U else if s = str ''N'' then Ph_N
      else Ph_closed)"

text \<open>
  \<^verbatim>\<open>["A", "E", "I", "O", "U"][Math.floor(Math.random() * 5)]\<close>, for the value \<open>r\<close>
  that \<^verbatim>\<open>Math.random()\<close> returned (\<open>0 \<le> r < 1\<close>).
\<close>

definition randomVowel :: "real \<Rightarrow> Phoneme" where
  "randomVowel r = [Ph_A, Ph_E, Ph_I, Ph_O, Ph_U] ! nat \<lfloor>r * 5\<rfloor>"

text \<open>
  \<^verbatim>\<open>(code * 7 + code >> 3) % 100\<close>: the sum binds tighter than the shift. The code is at
  most \<open>0x9fff\<close> here, so the 32-bit conversion of the shift changes nothing.
\<close>

definition hash :: "nat \<Rightarrow> nat" where
  "hash code = drop_bit 3 (code * 7 + code) mod 100"

text \<open>
  The character needs a random number when it is no ideograph, does not match the
  pattern and is no vowel letter.
\<close>

definition usesRandom :: "jsstring \<Rightarrow> bool" where
  "usesRandom char =
     (case char of
        [] \<Rightarrow> False
      | code # _ \<Rightarrow>
          (code < 19968 \<or> code > 40959) \<and> \<not> closedPattern_test char \<and>
          \<not> js_includes (str ''aeiou'') (toLowerCase char))"

text \<open>
  \<^verbatim>\<open>getPhonemeForChar\<close>. \<open>rnd\<close> holds the successive results of \<^verbatim>\<open>Math.random()\<close>
  and \<open>k\<close> counts those already taken; the function returns the new count. The string
  iterator never yields the empty string (its code would be NaN, which fails every
  comparison and hashes to 0).
\<close>

definition getPhonemeForChar :: "(nat \<Rightarrow> real) \<Rightarrow> nat \<Rightarrow> jsstring \<Rightarrow> Phoneme \<times> nat" where
  "getPhonemeForChar rnd k char =
     (case char of
        [] \<Rightarrow> (Ph_A, k)
      | code # _ \<Rightarrow>
          if code < 19968 \<or> code > 40959 then
            (if closedPattern_test char then (Ph_closed, k)
             else let lower = toLowerCase char in
               if js_includes (str ''aeiou'') lower
               then (phonemeOfString (toUpperCase lower), k)
               else (randomVowel (rnd k), Suc k))
          else
            (let h = hash code in
             if h < 25 then (Ph_A, k)
             else if h < 45 then (Ph_I, k)
             else if h < 60 then (Ph_E, k)
             else if h < 75 then (Ph_O, k)
             else if h < 90 then (Ph_U, k)
             else (Ph_N, k)))"

definition frameWeight :: "LipSyncConfig \<Rightarrow> Phoneme \<Rightarrow> real" where
  "frameWeight cfg p =
     (if p = Ph_closed \<or> p = Ph_N then 1 / 10 else speakingWeight cfg)"

text \<open>The loop of \<^verbatim>\<open>textToFrames\<close>, with the array \<^verbatim>\<open>frames\<close> built so far.\<close>

fun textToFrames_loop ::
  "LipSyncConfig \<Rightarrow> (nat \<Rightarrow> real) \<Rightarrow> jsstring list \<Rightarrow> LipFrame list \<Rightarrow> nat \<Rightarrow> LipFrame list \<times> nat"
where
  "textToFrames_loop cfg rnd [] frames k = (frames, k)"
| "textToFrames_loop cfg rnd (char # rest) frames k =
     (let (p, k') = getPhonemeForChar rnd k char;
          frames' =
            (if frames \<noteq> [] \<and> phoneme (last frames) = p
             then butlast frames @
                    [(last frames)
                       \<lparr>duration := js_plus (duration (last frames)) (charDuration cfg)\<rparr>]
             else frames @
                    [\<lparr>phoneme = p, weight = frameWeight cfg p, duration = charDuration cfg\<rparr>])
      in textToFrames_loop cfg rnd rest frames' k')"

definition textToFrames :: "LipSyncConfig \<Rightarrow> (nat \<Rightarrow> real) \<Rightarrow> jsstring \<Rightarrow> LipFrame list" where
  "textToFrames cfg rnd text = fst (textToFrames_loop cfg rnd (chars text) [] 0)"








section \<open>Backend phonemes\<close>

definition classifyPhoneme :: "jsstring \<Rightarrow> Phoneme \<times> bool" where
  "classifyPhoneme phonemeStr =
     (let upperPhoneme = toUpperCase phonemeStr in
      if upperPhoneme = str ''CLOSED'' \<or> phonemeStr = str ''closed'' then (Ph_closed, True)
      else if upperPhoneme = str ''N'' then (Ph_N, True)
      else if upperPhoneme \<in> set [str ''A'', str ''E'', str ''I'', str ''O'', str ''U'']
      then (phonemeOfString upperPhoneme, False)
      else (Ph_A, False))"

definition phonemesToFrames :: "LipSyncConfig \<Rightarrow> jsstring list \<Rightarrow> nat \<Rightarrow> LipFrame list" where
  "phonemesToFrames cfg phonemes textLength =
     (let avgDuration =
            max (charDuration cfg)
                (real textLength * charDuration cfg / real (length phonemes))
      in map (\<lambda>phonemeStr.
                let (p, isSilent) = classifyPhoneme phonemeStr
                in \<lparr>phoneme = p,
                    weight = (if isSilent then 1 / 10 else speakingWeight cfg),
                    duration = avgDuration\<rparr>)
             phonemes)"

section \<open>The lip-sync controller\<close>

text \<open>
  What the controller does to the outside: the calls on the registered target (a target
  is named by a number) and on the animation-frame scheduler, in order.
\<close>

datatype effect =
    TargetSetMouthShape nat Phoneme jsnum
  | TargetResetMouth nat
  | RequestAnimationFrame nat
  | CancelAnimationFrame nat

text \<open>
  What the browser returns during one call: \<^verbatim>\<open>Date.now()\<close>, \<^verbatim>\<open>performance.now()\<close>,
  the handle of \<^verbatim>\<open>requestAnimationFrame\<close> and the results of \<^verbatim>\<open>Math.random()\<close>.
\<close>

record env =
  dateNow :: real
  performanceNow :: real
  rafHandle :: nat
  mathRandom :: "nat \<Rightarrow> real"

text \<open>
  The fields of \<^verbatim>\<open>LipSyncController\<close>, the variables \<^verbatim>\<open>lastTime\<close>,
  \<^verbatim>\<open>frameTimeRemaining\<close> and \<^verbatim>\<open>currentFrame\<close> that the running \<^verbatim>\<open>animate\<close> callback
  closes over, and the trace of the effects so far.
\<close>

record controller =
  target :: "nat option"
  config :: LipSyncConfig
  queue :: "LipFrame list"
  isPlaying :: bool
  animationTimer :: "nat option"
  lastChunkTime :: real
  lastTime :: real
  frameTimeRemaining :: real
  currentFrame :: "LipFrame option"
  effects :: "effect list"

definition newController :: controller where
  "newController =
     \<lparr>target = None, config = DEFAULT_CONFIG, queue = [], isPlaying = False,
      animationTimer = None, lastChunkTime = 0, lastTime = 0, frameTimeRemaining = 0,
      currentFrame = None, effects = []\<rparr>"

definition emit :: "effect \<Rightarrow> controller \<Rightarrow> controller" where
  "emit e s = s\<lparr>effects := effects s @ [e]\<rparr>"

text \<open>\<^verbatim>\<open>this.target?.resetMouth()\<close>\<close>

definition target_resetMouth :: "controller \<Rightarrow> controller" where
  "target_resetMouth s = (case target s of None \<Rightarrow> s | Some t \<Rightarrow> emit (TargetResetMouth t) s)"

definition stop :: "controller \<Rightarrow> controller" where
  "stop s =
     (let s1 = s\<lparr>isPlaying := False\<rparr>;
          s2 = (case animationTimer s1 of
                  Some h \<Rightarrow> if h \<noteq> 0
                            then (emit (CancelAnimationFrame h) s1)\<lparr>animationTimer := None\<rparr>
                            else s1
                | None \<Rightarrow> s1);
          s3 = s2\<lparr>queue := []\<rparr>
      in target_resetMouth s3)"

definition setTarget :: "nat option \<Rightarrow> controller \<Rightarrow> controller" where
  "setTarget t s =
     (let s1 = s\<lparr>target := t\<rparr>
      in if t = None then stop s1 else s1)"

text \<open>\<^verbatim>\<open>setConfig\<close> takes a partial configuration: the fields given replace the old ones.\<close>

record partialConfig =
  p_charDuration :: "real option"
  p_transitionDuration :: "real option"
  p_speakingWeight :: "real option"
  p_enabled :: "bool option"

definition setConfig :: "partialConfig \<Rightarrow> controller \<Rightarrow> controller" where
  "setConfig c s =
     s\<lparr>config :=
         \<lparr>charDuration = (case p_charDuration c of Some v \<Rightarrow> v | None \<Rightarrow> charDuration (config s)),
          transitionDuration =
            (case p_transitionDuration c of Some v \<Rightarrow> v | None \<Rightarrow> transitionDuration (config s)),
          speakingWeight =
            (case p_speakingWeight c of Some v \<Rightarrow> v | None \<Rightarrow> speakingWeight (config s)),
          enabled = (case p_enabled c of Some v \<Rightarrow> v | None \<Rightarrow> enabled (config s))\<rparr>\<rparr>"

definition startPlayback :: "env \<Rightarrow> controller \<Rightarrow> controller" where
  "startPlayback e s =
     (if isPlaying s then s
      else (emit (RequestAnimationFrame (rafHandle e))
             (s\<lparr>isPlaying := True, lastTime := performanceNow e, frameTimeRemaining := 0,
                currentFrame := None\<rparr>))\<lparr>animationTimer := Some (rafHandle e)\<rparr>)"

definition processChunk :: "env \<Rightarrow> jsstring \<Rightarrow> controller \<Rightarrow> controller" where
  "processChunk e content s =
     (if \<not> enabled (config s) \<or> target s = None then s
      else let s1 = s\<lparr>lastChunkTime := dateNow e\<rparr>;
               frames = textToFrames (config s1) (mathRandom e) content;
               s2 = s1\<lparr>queue := queue s1 @ frames\<rparr>
           in if \<not> isPlaying s2 then startPlayback e s2 else s2)"

definition processChunkWithPhonemes ::
  "env \<Rightarrow> jsstring \<Rightarrow> jsstring list option \<Rightarrow> controller \<Rightarrow> controller"
where
  "processChunkWithPhonemes e content phonemes s =
     (if \<not> enabled (config s) then s
      else if target s = None then s
      else let s1 = s\<lparr>lastChunkTime := dateNow e\<rparr>;
               frames =
                 (case phonemes of
                    Some ps \<Rightarrow>
                      if length ps > 0 then phonemesToFrames (config s1) ps (length content)
                      else textToFrames (config s1) (mathRandom e) content
                  | None \<Rightarrow> textToFrames (config s1) (mathRandom e) content);
               s2 = s1\<lparr>queue := queue s1 @ frames\<rparr>
           in if \<not> isPlaying s2 then startPlayback e s2 else s2)"

definition onComplete :: "controller \<Rightarrow> controller" where
  "onComplete s =
     s\<lparr>queue := queue s @
          [\<lparr>phoneme = Ph_closed, weight = 0,
            duration = transitionDuration (config s) * 2\<rparr>]\<rparr>"

definition easeInOut :: "jsnum \<Rightarrow> jsnum" where
  "easeInOut t =
     (if js_lt t (Fin (1 / 2)) then js_mul (js_mul (Fin 2) t) t
      else js_sub (Fin 1) (js_div (js_pow2 (js_add (js_mul (Fin (- 2)) t) (Fin 2))) (Fin 2)))"

definition applyMouthShape :: "Phoneme \<Rightarrow> jsnum \<Rightarrow> controller \<Rightarrow> controller" where
  "applyMouthShape p w s =
     (case target s of
        None \<Rightarrow> s
      | Some t \<Rightarrow> emit (TargetSetMouthShape t p (js_max (Fin 0) (js_min (Fin 1) w))) s)"

text \<open>
  One run of the \<^verbatim>\<open>animate\<close> callback, called by the browser with the frame time
  \<open>time\<close>. It ends either by asking for the next animation frame or, past the grace
  window, by returning without doing so.
\<close>

definition animate :: "env \<Rightarrow> real \<Rightarrow> controller \<Rightarrow> controller" where
  "animate e time s =
     (if \<not> isPlaying s then s
      else
        let deltaTime = time - lastTime s;
            s1 = s\<lparr>lastTime := time\<rparr>;
            s2 = (case currentFrame s1 of
                    Some f \<Rightarrow>
                      let s1' = s1\<lparr>frameTimeRemaining := frameTimeRemaining s1 - deltaTime\<rparr>;
                          progress =
                            js_sub (Fin 1)
                              (js_div (Fin (frameTimeRemaining s1')) (Fin (duration f)));
                          easedWeight = js_mul (easeInOut progress) (Fin (weight f))
                      in applyMouthShape (phoneme f) easedWeight s1'
                  | None \<Rightarrow> s1);
            schedule = (\<lambda>s'. (emit (RequestAnimationFrame (rafHandle e)) s')
                               \<lparr>animationTimer := Some (rafHandle e)\<rparr>)
        in if frameTimeRemaining s2 \<le> 0 then
             (case queue s2 of
                f # rest \<Rightarrow>
                  schedule (s2\<lparr>queue := rest, currentFrame := Some f,
                               frameTimeRemaining := duration f\<rparr>)
              | [] \<Rightarrow>
                  let s3 = s2\<lparr>currentFrame := None\<rparr>;
                      timeSinceLastChunk = dateNow e - lastChunkTime s3
                  in if timeSinceLastChunk > 500
                     then (target_resetMouth s3)\<lparr>isPlaying := False\<rparr>
                     else schedule s3)
           else schedule s2)"

text \<open>
  The animation ticks the browser delivers: each with the environment of the call and
  its frame time.
\<close>

fun run_ticks :: "(env \<times> real) list \<Rightarrow> controller \<Rightarrow> controller" where
  "run_ticks [] s = s"
| "run_ticks ((e, time) # rest) s = run_ticks rest (animate e time s)"

text \<open>The weights the controller passed to \<^verbatim>\<open>setMouthShape\<close>.\<close>

fun mouthWeights :: "effect list \<Rightarrow> jsnum list" where
  "mouthWeights [] = []"
| "mouthWeights (TargetSetMouthShape t p w # es) = w # mouthWeights es"
| "mouthWeights (e # es) = mouthWeights es"

definition isTargetCall :: "effect \<Rightarrow> bool" where
  "isTargetCall e =
     (case e of TargetSetMouthShape t p w \<Rightarrow> True | TargetResetMouth t \<Rightarrow> True | _ \<Rightarrow> False)"

section \<open>Renderer registry\<close>

datatype RendererFactory =
    Live2DRendererFactory
  | VRMRendererFactory
  | GLTFRendererFactory
  | FBXRendererFactory
  | MMDRendererFactory

fun canHandle :: "RendererFactory \<Rightarrow> jsstring \<Rightarrow> bool" where
  "canHandle Live2DRendererFactory modelPath =
     (endsWith modelPath (str ''.model.json'') \<or> endsWith modelPath (str ''.model3.json''))"
| "canHandle VRMRendererFactory modelPath =
     (endsWith modelPath (str ''.vrm'') \<or> endsWith modelPath (str ''.glb''))"
| "canHandle GLTFRendererFactory modelPath =
     (let lower = toLowerCase modelPath in
      if endsWith lower (str ''.vrm'') then False
      else endsWith lower (str ''.gltf'') \<or> endsWith lower (str ''.glb''))"
| "canHandle FBXRendererFactory modelPath = endsWith (toLowerCase modelPath) (str ''.fbx'')"
| "canHandle MMDRendererFactory modelPath =
     (let lower = toLowerCase modelPath in
      endsWith lower (str ''.pmd'') \<or> endsWith lower (str ''.pmx''))"

type_synonym RendererRegistry = "RendererFactory list"

definition register :: "RendererFactory \<Rightarrow> RendererRegistry \<Rightarrow> RendererRegistry" where
  "register factory factories = factories @ [factory]"

definition getFactory :: "RendererRegistry \<Rightarrow> jsstring \<Rightarrow> RendererFactory option" where
  "getFactory factories modelPath = find (\<lambda>f. canHandle f modelPath) factories"

definition createDefaultRendererRegistry :: RendererRegistry where
  "createDefaultRendererRegistry =
     register MMDRendererFactory
       (register FBXRendererFactory
         (register GLTFRendererFactory
           (register VRMRendererFactory
             (register Live2DRendererFactory []))))"

subsection \<open>Content sniffing in the model store\<close>

text \<open>
  \<^verbatim>\<open>detectVRMExtension\<close>, on what \<^verbatim>\<open>fetch\<close> delivered: the bytes of the file, or
  \<open>None\<close> when the fetch failed. A read outside the buffer raises a RangeError, which the
  function catches and answers with false. The markers are ASCII and UTF-8 decoding keeps
  every ASCII byte in its place, so the search runs on the bytes.
\<close>

definition getUint32 :: "nat list \<Rightarrow> nat \<Rightarrow> nat option" where
  "getUint32 buffer off =
     (if off + 4 \<le> length buffer
      then Some (buffer ! off + 256 * buffer ! (off + 1) + 65536 * buffer ! (off + 2)
                 + 16777216 * buffer ! (off + 3))
      else None)"

definition hasVRMMarker :: "nat list \<Rightarrow> bool" where
  "hasVRMMarker text =
     (js_includes text ([34] @ str ''VRM'' @ [34]) \<or>
      js_includes text ([34] @ str ''VRMC_vrm'' @ [34]) \<or>
      js_includes text ([34] @ str ''VRMC_springBone'' @ [34]))"

definition detectVRMExtension :: "nat list option \<Rightarrow> bool" where
  "detectVRMExtension fetched =
     (case fetched of
        None \<Rightarrow> False
      | Some buffer \<Rightarrow>
          (case getUint32 buffer 0 of
             None \<Rightarrow> False
           | Some magic \<Rightarrow>
               if magic = 1179937895 then
                 (case getUint32 buffer 12 of
                    None \<Rightarrow> False
                  | Some jsonChunkLength \<Rightarrow>
                      (case getUint32 buffer 16 of
                         None \<Rightarrow> False
                       | Some jsonChunkType \<Rightarrow>
                           if jsonChunkType = 1313821514 then
                             (if 20 + jsonChunkLength \<le> length buffer
                              then hasVRMMarker (take jsonChunkLength (drop 20 buffer))
                              else False)
                           else False))
               else hasVRMMarker buffer))"

datatype ModelType = vrm | gltf | fbx | mmd | live2d

text \<open>The model type that \<^verbatim>\<open>loadModel\<close> of the model store detects.\<close>

definition loadModel_type :: "jsstring \<Rightarrow> nat list option \<Rightarrow> ModelType" where
  "loadModel_type path fetched =
     (let lowerPath = toLowerCase path in
      if endsWith lowerPath (str ''.vrm'') then vrm
      else if endsWith lowerPath (str ''.glb'') \<or> endsWith lowerPath (str ''.gltf'')
      then (if detectVRMExtension fetched then vrm else gltf)
      else if endsWith lowerPath (str ''.fbx'') then fbx
      else if endsWith lowerPath (str ''.pmd'') \<or> endsWith lowerPath (str ''.pmx'') then mmd
      else if js_includes lowerPath (str ''model.json'') \<or>
              js_includes lowerPath (str ''model3.json'') then live2d
      else live2d)"

section \<open>Auxiliary notions of the proofs\<close>

text \<open>
  The tracking invariant of the VRM adapter: every controlled expression other than the
  one of \<^verbatim>\<open>lastPhoneme\<close> is at weight zero.
\<close>

definition vrm_inv :: "jsstring list \<Rightarrow> vrm_adapter \<Rightarrow> bool" where
  "vrm_inv av a =
     (\<forall>n. vrm_controlled av n \<and> shapeMap av (lastPhoneme a) \<noteq> Some n \<longrightarrow> weights a n = 0)"

text \<open>The same for the MMD adapter and \<^verbatim>\<open>lastIndex\<close>.\<close>

definition mmd_inv :: "(jsstring \<rightharpoonup> int) \<Rightarrow> mmd_adapter \<Rightarrow> bool" where
  "mmd_inv dict a =
     (\<forall>i. mmd_controlled dict (influences a) i \<and> int i \<noteq> lastIndex a \<longrightarrow> influences a ! i = 0)"


text \<open>The effects of a call: what the trace of \<open>s'\<close> has beyond the trace of \<open>s\<close>.\<close>

definition newEffects :: "controller \<Rightarrow> controller \<Rightarrow> effect list" where
  "newEffects s s' = drop (length (effects s)) (effects s')"

definition isRequestAnimationFrame :: "effect \<Rightarrow> bool" where
  "isRequestAnimationFrame x = (case x of RequestAnimationFrame h \<Rightarrow> True | _ \<Rightarrow> False)"

definition isTargetResetMouth :: "effect \<Rightarrow> bool" where
  "isTargetResetMouth x = (case x of TargetResetMouth t \<Rightarrow> True | _ \<Rightarrow> False)"

subsection \<open>Scenarios\<close>

text \<open>A browser whose clock reads \<open>now\<close> and whose random numbers are \<open>rnd\<close>.\<close>

definition browser :: "real \<Rightarrow> (nat \<Rightarrow> real) \<Rightarrow> env" where
  "browser now rnd = \<lparr>dateNow = now, performanceNow = 5, rafHandle = 7, mathRandom = rnd\<rparr>"

text \<open>A controller with target 1 registered, under the default configuration.\<close>

definition registered :: controller where
  "registered = setTarget (Some 1) newController"

text \<open>
  Target 1 is registered, the chunk \<^verbatim>\<open>"a"\<close> arrived at clock 1000 and the first
  animation tick took its frame from the queue.
\<close>

definition speaking :: controller where
  "speaking =
     animate (browser 1010 (\<lambda>_. 0)) 16
       (processChunk (browser 1000 (\<lambda>_. 0)) (str ''a'') registered)"

text \<open>
  \<^verbatim>\<open>setConfig({transitionDuration: 0})\<close>, target 1 registered, the chunk \<^verbatim>\<open>"a"\<close>, then
  \<^verbatim>\<open>onComplete()\<close>.
\<close>

definition closing :: controller where
  "closing =
     onComplete
       (processChunk (browser 1000 (\<lambda>_. 0)) (str ''a'')
          (setTarget (Some 1)
             (setConfig \<lparr>p_charDuration = None, p_transitionDuration = Some 0,
                         p_speakingWeight = None, p_enabled = None\<rparr> newController)))"


text \<open>A mesh with the morphs of A and I, both at weight one half.\<close>

definition half_open_mesh :: mmd_mesh where
  "half_open_mesh =
     \<lparr>morphTargetDictionary = Some [[12354] \<mapsto> 0, [12356] \<mapsto> 1],
      morphTargetInfluences = Some [1 / 2, 1 / 2]\<rparr>"

text \<open>A binary glTF file with the JSON chunk \<^verbatim>\<open>{}\<close>, and one whose JSON names \<^verbatim>\<open>"VRM"\<close>.\<close>

definition plain_glb :: "nat list" where
  "plain_glb =
     [103, 108, 84, 70, 2, 0, 0, 0, 24, 0, 0, 0, 4, 0, 0, 0, 74, 83, 79, 78, 123, 125, 32, 32]"

definition vrm_glb :: "nat list" where
  "vrm_glb =
     [103, 108, 84, 70, 2, 0, 0, 0, 30, 0, 0, 0, 10, 0, 0, 0, 74, 83, 79, 78, 123]
     @ [34] @ str ''VRM'' @ [34] @ str '':1}'' @ [32]"

section \<open>Rounding: evaluation\<close>






section \<open>Mouth-shape adapters: resetting twice, one active shape\<close>

lemma vrm_inv_setMouthShape: "vrm_inv av a \<Longrightarrow> vrm_inv av (vrm_setMouthShape av p w a)"
  by (auto simp: vrm_inv_def vrm_setMouthShape_def Let_def setExpression_def shapeMap_def
           split: option.splits if_splits)

lemma vrm_inv_resetMouth: "vrm_inv av a \<Longrightarrow> vrm_inv av (vrm_resetMouth av a)"
  by (auto simp: vrm_inv_def vrm_resetMouth_def Let_def setExpression_def shapeMap_def
           split: option.splits if_splits)

lemma vrm_inv_calls: "vrm_inv av a \<Longrightarrow> vrm_inv av (fold (vrm_call av) cs a)"
proof (induction cs arbitrary: a)
  case Nil
  then show ?case by simp
next
  case (Cons c cs)
  then show ?case
    by (cases c) (simp_all add: vrm_inv_setMouthShape vrm_inv_resetMouth)
qed

lemma vrm_inv_atMostOneActive: "vrm_inv av a \<Longrightarrow> vrm_atMostOneActive av a"
  unfolding vrm_inv_def vrm_atMostOneActive_def by (metis option.inject)

lemma mmd_inv_setMouthShape: "mmd_inv dict a \<Longrightarrow> mmd_inv dict (mmd_setMouthShape dict p w a)"
  by (auto simp: mmd_inv_def mmd_setMouthShape_def Let_def mmd_controlled_def defined_at_def
                 nth_list_update split: if_splits)

lemma mmd_inv_resetMouth: "mmd_inv dict a \<Longrightarrow> mmd_inv dict (mmd_resetMouth a)"
  by (auto simp: mmd_inv_def mmd_resetMouth_def Let_def mmd_controlled_def defined_at_def
                 nth_list_update split: if_splits)

lemma mmd_inv_calls: "mmd_inv dict a \<Longrightarrow> mmd_inv dict (fold (mmd_call dict) cs a)"
proof (induction cs arbitrary: a)
  case Nil
  then show ?case by simp
next
  case (Cons c cs)
  then show ?case
    by (cases c) (simp_all add: mmd_inv_setMouthShape mmd_inv_resetMouth)
qed

lemma mmd_inv_atMostOneActive: "mmd_inv dict a \<Longrightarrow> mmd_atMostOneActive dict a"
  unfolding mmd_inv_def mmd_atMostOneActive_def by (metis of_nat_eq_iff)

text \<open>
  Claim C8, as stated: after any sequence of calls on the freshly created adapter at
  most one controlled mouth shape is nonzero. It fails on a mesh whose morphs of A and I
  are both at one half when the adapter is created: the adapter writes nothing at
  creation and zeroes only the shape it tracks, so after \<^verbatim>\<open>setMouthShape("A", 0.7)\<close> the
  influences are 0.7 and 0.5.
\<close>

theorem adapters_restless_counterexample:
  "influences (fold (mmd_call (mesh_dict half_open_mesh)) [SetMouthShape Ph_A (7 / 10)]
                 (createMMDLipSyncAdapter half_open_mesh)) = [7 / 10, 1 / 2] \<and>
   \<not> mmd_atMostOneActive (mesh_dict half_open_mesh)
        (fold (mmd_call (mesh_dict half_open_mesh)) [SetMouthShape Ph_A (7 / 10)]
           (createMMDLipSyncAdapter half_open_mesh))"
proof -
  have f: "findMorphIndex (mesh_dict half_open_mesh) Ph_A = 0"
    "findMorphIndex (mesh_dict half_open_mesh) Ph_I = 1"
    by (simp_all add: findMorphIndex_def MMD_MOUTH_SHAPES_def mesh_dict_def half_open_mesh_def
        str_def)
  have a: "createMMDLipSyncAdapter half_open_mesh = \<lparr>influences = [1 / 2, 1 / 2], lastIndex = - 1\<rparr>"
    by (simp add: createMMDLipSyncAdapter_def half_open_mesh_def)
  have i: "influences (fold (mmd_call (mesh_dict half_open_mesh)) [SetMouthShape Ph_A (7 / 10)]
                 (createMMDLipSyncAdapter half_open_mesh)) = [7 / 10, 1 / 2]"
    by (simp add: a mmd_setMouthShape_def f defined_at_def Let_def)
  have c: "mmd_controlled (mesh_dict half_open_mesh) [7 / 10, 1 / 2] 0"
    "mmd_controlled (mesh_dict half_open_mesh) [7 / 10, 1 / 2] 1"
    using f by (auto simp: mmd_controlled_def)
  have "\<not> mmd_atMostOneActive (mesh_dict half_open_mesh)
        (fold (mmd_call (mesh_dict half_open_mesh)) [SetMouthShape Ph_A (7 / 10)]
           (createMMDLipSyncAdapter half_open_mesh))"
  proof
    assume "mmd_atMostOneActive (mesh_dict half_open_mesh)
        (fold (mmd_call (mesh_dict half_open_mesh)) [SetMouthShape Ph_A (7 / 10)]
           (createMMDLipSyncAdapter half_open_mesh))"
    then have "\<forall>i j. mmd_controlled (mesh_dict half_open_mesh) [7 / 10, 1 / 2] i \<and>
        mmd_controlled (mesh_dict half_open_mesh) [7 / 10, 1 / 2] j \<and>
        [7 / 10, 1 / 2 :: real] ! i \<noteq> 0 \<and> [7 / 10, 1 / 2 :: real] ! j \<noteq> 0 \<longrightarrow> i = j"
      unfolding mmd_atMostOneActive_def i .
    then have "mmd_controlled (mesh_dict half_open_mesh) [7 / 10, 1 / 2] 0 \<and>
        mmd_controlled (mesh_dict half_open_mesh) [7 / 10, 1 / 2] 1 \<and>
        [7 / 10, 1 / 2 :: real] ! 0 \<noteq> 0 \<and> [7 / 10, 1 / 2 :: real] ! 1 \<noteq> 0 \<longrightarrow> (0::nat) = 1"
      by blast
    then show False using c by simp
  qed
  with i show ?thesis by simp
qed

text \<open>
  Claim C8, amended. When the mouth shapes that the adapter controls are at weight zero
  at the creation of the adapter (a mouth at rest), then in the VRM and in the MMD
  adapter, after any finite sequence of \<^verbatim>\<open>setMouthShape\<close> and \<^verbatim>\<open>resetMouth\<close> calls on
  the freshly created adapter, at most one mouth shape that the adapter controls carries
  a nonzero weight. Every prefix of a sequence of calls is a sequence of calls, so this
  holds at every instant.
\<close>

theorem adapters_one_active_shape:
  assumes "\<forall>n. vrm_controlled av n \<longrightarrow> w0 n = 0"
    and "\<forall>i. mmd_controlled (mesh_dict mesh) (influences (createMMDLipSyncAdapter mesh)) i
             \<longrightarrow> influences (createMMDLipSyncAdapter mesh) ! i = 0"
  shows "vrm_atMostOneActive av (fold (vrm_call av) cs (createVRMLipSyncAdapter w0)) \<and>
         mmd_atMostOneActive (mesh_dict mesh)
           (fold (mmd_call (mesh_dict mesh)) cs' (createMMDLipSyncAdapter mesh))"
proof
  have "vrm_inv av (createVRMLipSyncAdapter w0)"
    using assms(1) by (simp add: vrm_inv_def createVRMLipSyncAdapter_def)
  then show "vrm_atMostOneActive av (fold (vrm_call av) cs (createVRMLipSyncAdapter w0))"
    by (intro vrm_inv_atMostOneActive vrm_inv_calls)
next
  have "mmd_inv (mesh_dict mesh) (createMMDLipSyncAdapter mesh)"
    using assms(2) by (simp add: mmd_inv_def)
  then show "mmd_atMostOneActive (mesh_dict mesh)
           (fold (mmd_call (mesh_dict mesh)) cs' (createMMDLipSyncAdapter mesh))"
    by (intro mmd_inv_atMostOneActive mmd_inv_calls)
qed

theorem adapters_one_active_shape_witness:
  "vrm_atMostOneActive [str ''aa'', str ''ih'']
     (fold (vrm_call [str ''aa'', str ''ih''])
        [SetMouthShape Ph_A (7 / 10), SetMouthShape Ph_I (1 / 2)]
        (createVRMLipSyncAdapter (\<lambda>_. 0))) \<and>
   mmd_atMostOneActive
     (mesh_dict \<lparr>morphTargetDictionary = Some [[12354] \<mapsto> 0, [12356] \<mapsto> 1],
                 morphTargetInfluences = Some [0, 0]\<rparr>)
     (fold (mmd_call (mesh_dict \<lparr>morphTargetDictionary = Some [[12354] \<mapsto> 0, [12356] \<mapsto> 1],
                                  morphTargetInfluences = Some [0, 0]\<rparr>))
        [SetMouthShape Ph_A (7 / 10), SetMouthShape Ph_I (1 / 2)]
        (createMMDLipSyncAdapter \<lparr>morphTargetDictionary = Some [[12354] \<mapsto> 0, [12356] \<mapsto> 1],
                                  morphTargetInfluences = Some [0, 0]\<rparr>)) \<and>
   shapeMap [str ''aa'', str ''ih''] Ph_A = Some (str ''aa'') \<and>
   shapeMap [str ''aa'', str ''ih''] Ph_I = Some (str ''ih'') \<and>
   weights (fold (vrm_call [str ''aa'', str ''ih''])
              [SetMouthShape Ph_A (7 / 10), SetMouthShape Ph_I (1 / 2)]
              (createVRMLipSyncAdapter (\<lambda>_. 0))) (str ''aa'') = 0 \<and>
   weights (fold (vrm_call [str ''aa'', str ''ih''])
              [SetMouthShape Ph_A (7 / 10), SetMouthShape Ph_I (1 / 2)]
              (createVRMLipSyncAdapter (\<lambda>_. 0))) (str ''ih'') = 1 / 2 \<and>
   influences
     (fold (mmd_call (mesh_dict \<lparr>morphTargetDictionary = Some [[12354] \<mapsto> 0, [12356] \<mapsto> 1],
                                  morphTargetInfluences = Some [0, 0]\<rparr>))
        [SetMouthShape Ph_A (7 / 10), SetMouthShape Ph_I (1 / 2)]
        (createMMDLipSyncAdapter \<lparr>morphTargetDictionary = Some [[12354] \<mapsto> 0, [12356] \<mapsto> 1],
                                  morphTargetInfluences = Some [0, 0]\<rparr>))
     = [0, 1 / 2]"
proof -
  have h1: "\<forall>n. vrm_controlled [str ''aa'', str ''ih''] n \<longrightarrow> (\<lambda>_. 0 :: real) n = 0"
    by simp
  have h2: "\<forall>i. mmd_controlled
               (mesh_dict \<lparr>morphTargetDictionary = Some [[12354] \<mapsto> 0, [12356] \<mapsto> 1],
                           morphTargetInfluences = Some [0, 0]\<rparr>)
               (influences (createMMDLipSyncAdapter
                  \<lparr>morphTargetDictionary = Some [[12354] \<mapsto> 0, [12356] \<mapsto> 1],
                   morphTargetInfluences = Some [0, 0]\<rparr>)) i
             \<longrightarrow> influences (createMMDLipSyncAdapter
                    \<lparr>morphTargetDictionary = Some [[12354] \<mapsto> 0, [12356] \<mapsto> 1],
                     morphTargetInfluences = Some [0, 0]\<rparr>) ! i = 0"
    by (simp add: createMMDLipSyncAdapter_def mmd_controlled_def nth_Cons')
  have sm: "shapeMap [str ''aa'', str ''ih''] Ph_A = Some (str ''aa'')"
    "shapeMap [str ''aa'', str ''ih''] Ph_I = Some (str ''ih'')"
    by (simp_all add: shapeMap_def findShape_def VRM_MOUTH_SHAPES_def str_def toLowerCase_def
        lowerUnit_def)
  have v: "weights (fold (vrm_call [str ''aa'', str ''ih''])
              [SetMouthShape Ph_A (7 / 10), SetMouthShape Ph_I (1 / 2)]
              (createVRMLipSyncAdapter (\<lambda>_. 0))) (str ''aa'') = 0"
    "weights (fold (vrm_call [str ''aa'', str ''ih''])
              [SetMouthShape Ph_A (7 / 10), SetMouthShape Ph_I (1 / 2)]
              (createVRMLipSyncAdapter (\<lambda>_. 0))) (str ''ih'') = 1 / 2"
    by (simp_all add: sm vrm_setMouthShape_def createVRMLipSyncAdapter_def setExpression_def
        Let_def, simp_all add: str_def)
  have m: "influences
     (fold (mmd_call (mesh_dict \<lparr>morphTargetDictionary = Some [[12354] \<mapsto> 0, [12356] \<mapsto> 1],
                                  morphTargetInfluences = Some [0, 0]\<rparr>))
        [SetMouthShape Ph_A (7 / 10), SetMouthShape Ph_I (1 / 2)]
        (createMMDLipSyncAdapter \<lparr>morphTargetDictionary = Some [[12354] \<mapsto> 0, [12356] \<mapsto> 1],
                                  morphTargetInfluences = Some [0, 0]\<rparr>))
     = [0, 1 / 2]"
    by (simp add: mmd_setMouthShape_def createMMDLipSyncAdapter_def mesh_dict_def
        findMorphIndex_def MMD_MOUTH_SHAPES_def defined_at_def str_def Let_def)
  show ?thesis
    using adapters_one_active_shape[OF h1 h2] sm v m by blast
qed

text \<open>
  Claim C9. In both adapters and in every adapter state, a second \<^verbatim>\<open>resetMouth()\<close>
  right after the first leaves the state (the weights and the tracking of the last
  shape) as the first call left it.
\<close>

theorem resetMouth_idempotent:
  "vrm_resetMouth av (vrm_resetMouth av a) = vrm_resetMouth av a \<and>
   mmd_resetMouth (mmd_resetMouth m) = mmd_resetMouth m"
  by (simp add: vrm_resetMouth_def mmd_resetMouth_def Let_def)

theorem resetMouth_idempotent_witness:
  "vrm_resetMouth [str ''aa'']
     (vrm_resetMouth [str ''aa'']
        (vrm_setMouthShape [str ''aa''] Ph_A (7 / 10) (createVRMLipSyncAdapter (\<lambda>_. 0))))
   = vrm_resetMouth [str ''aa'']
       (vrm_setMouthShape [str ''aa''] Ph_A (7 / 10) (createVRMLipSyncAdapter (\<lambda>_. 0))) \<and>
   mmd_resetMouth (mmd_resetMouth \<lparr>influences = [7 / 10, 0], lastIndex = 0\<rparr>)
   = mmd_resetMouth \<lparr>influences = [7 / 10, 0], lastIndex = 0\<rparr>"
  by (rule resetMouth_idempotent)

section \<open>Heuristic frames: merging of adjacent equal phonemes\<close>


















section \<open>Heuristic phonemes and the random number generator\<close>

lemmas scenario_simps =
  browser_def registered_def setTarget_def newController_def DEFAULT_CONFIG_def
  processChunk_def startPlayback_def emit_def textToFrames_def str_def
  getPhonemeForChar_def closedPattern_test_def isPunctuation_def isWhitespace_def
  toLowerCase_def lowerUnit_def toUpperCase_def upperUnit_def phonemeOfString_def
  frameWeight_def Let_def

lemma getPhonemeForChar_without_random:
  "\<not> usesRandom c \<Longrightarrow> getPhonemeForChar r1 k1 c = (fst (getPhonemeForChar r2 k2 c), k1)"
  by (auto simp: usesRandom_def getPhonemeForChar_def Let_def split: list.splits)

lemma textToFrames_loop_without_random:
  "list_all (\<lambda>c. \<not> usesRandom c) cs \<Longrightarrow>
   fst (textToFrames_loop cfg r1 cs frames k1) = fst (textToFrames_loop cfg r2 cs frames k2)"
proof (induction cs arbitrary: frames k1 k2)
  case Nil
  then show ?case by simp
next
  case (Cons c cs)
  from Cons.prems have c: "\<not> usesRandom c" and cs: "list_all (\<lambda>c. \<not> usesRandom c) cs"
    by simp_all
  obtain p where p1: "getPhonemeForChar r1 k1 c = (p, k1)"
    and p2: "getPhonemeForChar r2 k2 c = (p, k2)"
    using getPhonemeForChar_without_random[OF c, of r1 k1 r2 k2]
      getPhonemeForChar_without_random[OF c, of r2 k2 r2 k2]
    by auto
  show ?case
    by (simp only: textToFrames_loop.simps p1 p2 Let_def prod.case) (rule Cons.IH[OF cs])
qed

text \<open>
  Claim C3, as stated: for every input string, two runs of \<^verbatim>\<open>processChunk\<close> on the same
  text with the same configuration produce the same frames. It fails on the text
  \<^verbatim>\<open>"b"\<close>: a consonant gets a vowel drawn with \<^verbatim>\<open>Math.random()\<close>, and the two runs
  below, which differ in nothing but the random numbers, queue an A frame and an I frame.
\<close>

theorem processChunk_random_counterexample:
  "queue (processChunk (browser 1000 (\<lambda>_. 0)) (str ''b'') registered)
     = [\<lparr>phoneme = Ph_A, weight = 7 / 10, duration = 80\<rparr>] \<and>
   queue (processChunk (browser 1000 (\<lambda>_. 1 / 2)) (str ''b'') registered)
     = [\<lparr>phoneme = Ph_I, weight = 7 / 10, duration = 80\<rparr>]"
  by (simp add: scenario_simps randomVowel_def)

text \<open>
  Claim C3, amended. When no character of the text needs a random number (each is an
  ideograph from U+4E00 to U+9FFF, matches the punctuation and whitespace pattern, or is
  one of the vowel letters a, e, i, o, u in either case), \<^verbatim>\<open>processChunk\<close> is
  deterministic: two runs from the same controller state on the same text, whatever
  \<^verbatim>\<open>Math.random()\<close> returns in each, end in the same state, with the same frames
  queued.
\<close>

theorem processChunk_deterministic_without_random:
  assumes "list_all (\<lambda>c. \<not> usesRandom c) (chars content)"
  shows "processChunk (e\<lparr>mathRandom := r1\<rparr>) content s
         = processChunk (e\<lparr>mathRandom := r2\<rparr>) content s"
proof -
  have "textToFrames cfg r1 content = textToFrames cfg r2 content" for cfg
    using textToFrames_loop_without_random[OF assms] by (simp add: textToFrames_def)
  then show ?thesis
    by (simp add: processChunk_def startPlayback_def emit_def Let_def)
qed

theorem processChunk_deterministic_without_random_witness:
  "processChunk (browser 1000 (\<lambda>_. 0)) ([20320] @ str ''a, E'') registered
   = processChunk (browser 1000 (\<lambda>_. 1 / 2)) ([20320] @ str ''a, E'') registered"
proof -
  have h: "list_all (\<lambda>c. \<not> usesRandom c) (chars ([20320] @ str ''a, E''))"
    by (simp add: str_def usesRandom_def isHighSurrogate_def closedPattern_test_def
        isPunctuation_def isWhitespace_def toLowerCase_def lowerUnit_def)
  show ?thesis
    using processChunk_deterministic_without_random[OF h,
          where e = "browser 1000 (\<lambda>_. 0)" and ?r1.0 = "\<lambda>_. 0" and s = registered
            and ?r2.0 = "\<lambda>_. 1 / 2"]
    by (simp add: browser_def)
qed

section \<open>Frames from backend phonemes\<close>

lemma classifyPhoneme_silent:
  "snd (classifyPhoneme p)
   \<longleftrightarrow> fst (classifyPhoneme p) = Ph_N \<or> fst (classifyPhoneme p) = Ph_closed"
  by (auto simp: classifyPhoneme_def Let_def phonemeOfString_def str_def)

lemma phonemesToFrames_props:
  "length (phonemesToFrames cfg ps L) = length ps \<and>
   map phoneme (phonemesToFrames cfg ps L) = map (\<lambda>p. fst (classifyPhoneme p)) ps \<and>
   list_all (\<lambda>f. duration f
                    = max (charDuration cfg) (real L * charDuration cfg / real (length ps)) \<and>
                  weight f = frameWeight cfg (phoneme f))
            (phonemesToFrames cfg ps L)"
proof -
  have w: "(if snd (classifyPhoneme p) then 1 / 10 else speakingWeight cfg)
           = frameWeight cfg (fst (classifyPhoneme p))" for p
    using classifyPhoneme_silent[of p] by (auto simp: frameWeight_def)
  show ?thesis
    by (simp add: phonemesToFrames_def Let_def list_all_iff split_def w comp_def)
qed

text \<open>
  Claim C4. For a phoneme array \<open>ps\<close> supplied with a text of length \<open>L\<close>, the
  conversion yields exactly \<open>|ps|\<close> frames, one for each phoneme in order. Each has the
  duration \<open>max(charDuration, L * charDuration / |ps|)\<close>. A supplied \<^verbatim>\<open>A\<close>, \<^verbatim>\<open>E\<close>,
  \<^verbatim>\<open>I\<close>, \<^verbatim>\<open>O\<close> or \<^verbatim>\<open>U\<close> (in either case) yields the frame of that vowel with the weight
  \<open>speakingWeight\<close>; a supplied \<^verbatim>\<open>N\<close> yields the frame N and \<^verbatim>\<open>closed\<close> the frame
  closed, both with the weight 0.1. With lip sync enabled and a target registered,
  \<^verbatim>\<open>processChunkWithPhonemes\<close> with a non-empty array appends these frames to the queue.
  The scenario of the claim (the two ideographs U+4F60 U+597D with \<^verbatim>\<open>["A", "N"]\<close> under
  the default configuration) is evaluated after the theorem.
\<close>

theorem processChunkWithPhonemes_frames:
  "length (phonemesToFrames cfg ps L) = length ps \<and>
   list_all2
     (\<lambda>p f.
        duration f = max (charDuration cfg) (real L * charDuration cfg / real (length ps)) \<and>
        (toUpperCase p = str ''A'' \<longrightarrow> phoneme f = Ph_A \<and> weight f = speakingWeight cfg) \<and>
        (toUpperCase p = str ''E'' \<longrightarrow> phoneme f = Ph_E \<and> weight f = speakingWeight cfg) \<and>
        (toUpperCase p = str ''I'' \<longrightarrow> phoneme f = Ph_I \<and> weight f = speakingWeight cfg) \<and>
        (toUpperCase p = str ''O'' \<longrightarrow> phoneme f = Ph_O \<and> weight f = speakingWeight cfg) \<and>
        (toUpperCase p = str ''U'' \<longrightarrow> phoneme f = Ph_U \<and> weight f = speakingWeight cfg) \<and>
        (toUpperCase p = str ''N'' \<longrightarrow> phoneme f = Ph_N \<and> weight f = 1 / 10) \<and>
        (toUpperCase p = str ''CLOSED'' \<longrightarrow> phoneme f = Ph_closed \<and> weight f = 1 / 10))
     ps (phonemesToFrames cfg ps L) \<and>
   map (\<lambda>f. (phoneme f, weight f))
     (phonemesToFrames cfg
        [str ''A'', str ''E'', str ''I'', str ''O'', str ''U'', str ''N'', str ''closed''] L)
   = [(Ph_A, speakingWeight cfg), (Ph_E, speakingWeight cfg), (Ph_I, speakingWeight cfg),
      (Ph_O, speakingWeight cfg), (Ph_U, speakingWeight cfg), (Ph_N, 1 / 10),
      (Ph_closed, 1 / 10)] \<and>
   toUpperCase (str ''a'') = str ''A'' \<and> toUpperCase (str ''A'') = str ''A'' \<and>
   toUpperCase (str ''E'') = str ''E'' \<and> toUpperCase (str ''I'') = str ''I'' \<and>
   toUpperCase (str ''O'') = str ''O'' \<and> toUpperCase (str ''U'') = str ''U'' \<and>
   toUpperCase (str ''N'') = str ''N'' \<and> toUpperCase (str ''closed'') = str ''CLOSED'' \<and>
   map phoneme (phonemesToFrames cfg ps L) = map (\<lambda>p. fst (classifyPhoneme p)) ps \<and>
   list_all (\<lambda>f. duration f
                    = max (charDuration cfg) (real L * charDuration cfg / real (length ps)) \<and>
                  weight f
                    = (if phoneme f = Ph_N \<or> phoneme f = Ph_closed then 1 / 10
                       else speakingWeight cfg))
            (phonemesToFrames cfg ps L) \<and>
   (enabled (config s) \<and> target s \<noteq> None \<and> ps \<noteq> [] \<longrightarrow>
      queue (processChunkWithPhonemes e content (Some ps) s)
        = queue s @ phonemesToFrames (config s) ps (length content))"
proof -
  have "enabled (config s) \<and> target s \<noteq> None \<and> ps \<noteq> [] \<longrightarrow>
      queue (processChunkWithPhonemes e content (Some ps) s)
        = queue s @ phonemesToFrames (config s) ps (length content)"
    by (auto simp: processChunkWithPhonemes_def startPlayback_def emit_def Let_def)
  moreover have "list_all (\<lambda>f. duration f
                    = max (charDuration cfg) (real L * charDuration cfg / real (length ps)) \<and>
                  weight f
                    = (if phoneme f = Ph_N \<or> phoneme f = Ph_closed then 1 / 10
                       else speakingWeight cfg))
            (phonemesToFrames cfg ps L)"
    using phonemesToFrames_props[of cfg ps L]
    by (auto simp: list_all_iff frameWeight_def)
  moreover have "list_all2
     (\<lambda>p f.
        duration f = max (charDuration cfg) (real L * charDuration cfg / real (length ps)) \<and>
        (toUpperCase p = str ''A'' \<longrightarrow> phoneme f = Ph_A \<and> weight f = speakingWeight cfg) \<and>
        (toUpperCase p = str ''E'' \<longrightarrow> phoneme f = Ph_E \<and> weight f = speakingWeight cfg) \<and>
        (toUpperCase p = str ''I'' \<longrightarrow> phoneme f = Ph_I \<and> weight f = speakingWeight cfg) \<and>
        (toUpperCase p = str ''O'' \<longrightarrow> phoneme f = Ph_O \<and> weight f = speakingWeight cfg) \<and>
        (toUpperCase p = str ''U'' \<longrightarrow> phoneme f = Ph_U \<and> weight f = speakingWeight cfg) \<and>
        (toUpperCase p = str ''N'' \<longrightarrow> phoneme f = Ph_N \<and> weight f = 1 / 10) \<and>
        (toUpperCase p = str ''CLOSED'' \<longrightarrow> phoneme f = Ph_closed \<and> weight f = 1 / 10))
     ps (phonemesToFrames cfg ps L)"
    by (simp add: phonemesToFrames_def Let_def list_all2_map2 list_all2_same
        classifyPhoneme_def phonemeOfString_def str_def split_def)
       (simp add: toUpperCase_def upperUnit_def)
  moreover have "map (\<lambda>f. (phoneme f, weight f))
     (phonemesToFrames cfg
        [str ''A'', str ''E'', str ''I'', str ''O'', str ''U'', str ''N'', str ''closed''] L)
   = [(Ph_A, speakingWeight cfg), (Ph_E, speakingWeight cfg), (Ph_I, speakingWeight cfg),
      (Ph_O, speakingWeight cfg), (Ph_U, speakingWeight cfg), (Ph_N, 1 / 10),
      (Ph_closed, 1 / 10)]"
    by (simp add: phonemesToFrames_def Let_def classifyPhoneme_def phonemeOfString_def
        str_def toUpperCase_def upperUnit_def)
  moreover have "toUpperCase (str ''a'') = str ''A'' \<and> toUpperCase (str ''A'') = str ''A'' \<and>
   toUpperCase (str ''E'') = str ''E'' \<and> toUpperCase (str ''I'') = str ''I'' \<and>
   toUpperCase (str ''O'') = str ''O'' \<and> toUpperCase (str ''U'') = str ''U'' \<and>
   toUpperCase (str ''N'') = str ''N'' \<and> toUpperCase (str ''closed'') = str ''CLOSED''"
    by (simp add: toUpperCase_def upperUnit_def str_def)
  ultimately show ?thesis
    using phonemesToFrames_props[of cfg ps L] by simp
qed

theorem processChunkWithPhonemes_frames_witness:
  "queue (processChunkWithPhonemes (browser 1000 (\<lambda>_. 0)) [20320, 22909]
            (Some [str ''A'', str ''N'']) registered)
   = [\<lparr>phoneme = Ph_A, weight = 7 / 10, duration = 80\<rparr>,
      \<lparr>phoneme = Ph_N, weight = 1 / 10, duration = 80\<rparr>]"
proof -
  have s: "enabled (config registered)" "target registered \<noteq> None"
    "[str ''A'', str ''N''] \<noteq> []" "queue registered = []"
    by (simp_all add: registered_def setTarget_def newController_def DEFAULT_CONFIG_def)
  have "phonemesToFrames (config registered) [str ''A'', str ''N'']
          (length [20320, 22909 :: nat])
        = [\<lparr>phoneme = Ph_A, weight = 7 / 10, duration = 80\<rparr>,
           \<lparr>phoneme = Ph_N, weight = 1 / 10, duration = 80\<rparr>]"
    by (simp add: phonemesToFrames_def classifyPhoneme_def registered_def setTarget_def
        newController_def DEFAULT_CONFIG_def str_def toUpperCase_def upperUnit_def
        phonemeOfString_def Let_def)
  then show ?thesis
    using processChunkWithPhonemes_frames[of "config registered" "[str ''A'', str ''N'']" 2
        registered "browser 1000 (\<lambda>_. 0)" "[20320, 22909]"] s
    by simp
qed

section \<open>Detaching the target, and operating without one\<close>

lemma stop_effects:
  "effects (stop s) = effects s @
     (case animationTimer s of
        Some h \<Rightarrow> if h \<noteq> 0 then [CancelAnimationFrame h] else []
      | None \<Rightarrow> []) @
     (case target s of Some t \<Rightarrow> [TargetResetMouth t] | None \<Rightarrow> [])"
  by (simp add: stop_def Let_def emit_def target_resetMouth_def split: option.splits)

text \<open>
  \<^verbatim>\<open>setTarget(null)\<close> clears \<^verbatim>\<open>this.target\<close> before it calls \<^verbatim>\<open>stop()\<close>, so the
  \<^verbatim>\<open>resetMouth\<close> of \<^verbatim>\<open>stop()\<close> finds no target: the only effect is the cancelled
  animation frame.
\<close>

lemma setTarget_None_effects:
  "effects (setTarget None s) = effects s @
     (case animationTimer s of
        Some h \<Rightarrow> if h \<noteq> 0 then [CancelAnimationFrame h] else []
      | None \<Rightarrow> [])"
  by (simp add: setTarget_def stop_effects Let_def split: option.splits)

lemma setTarget_None_stops:
  "\<not> isPlaying (setTarget None s) \<and> queue (setTarget None s) = [] \<and>
   target (setTarget None s) = None"
  by (simp add: setTarget_def stop_def Let_def emit_def target_resetMouth_def
      split: option.splits)

text \<open>
  Claim C1. From a state in which target 1 is registered and a chunk is playing,
  \<^verbatim>\<open>setTarget(null)\<close> stops playback and leaves the queue empty, and it calls nothing on
  target 1: the trace ends with the cancelled animation frame, and no \<^verbatim>\<open>resetMouth()\<close>
  reaches the target that was registered.
\<close>

theorem setTarget_null_skips_resetMouth:
  "target (processChunk (browser 1000 (\<lambda>_. 0)) (str ''a'') registered) = Some 1 \<and>
   effects (setTarget None (processChunk (browser 1000 (\<lambda>_. 0)) (str ''a'') registered))
     = [RequestAnimationFrame 7, CancelAnimationFrame 7] \<and>
   \<not> isPlaying (setTarget None (processChunk (browser 1000 (\<lambda>_. 0)) (str ''a'') registered)) \<and>
   queue (setTarget None (processChunk (browser 1000 (\<lambda>_. 0)) (str ''a'') registered)) = []"
  by (simp add: scenario_simps stop_def target_resetMouth_def)

theorem setTarget_null_skips_resetMouth_witness:
  "TargetResetMouth 1
     \<notin> set (effects (setTarget None
                (processChunk (browser 1000 (\<lambda>_. 0)) (str ''a'') registered)))"
  using setTarget_null_skips_resetMouth by simp

text \<open>
  What holds with no target registered: the two chunk operations change nothing (nor do
  they when lip sync is disabled), \<^verbatim>\<open>onComplete\<close> changes the queue only, and
  \<^verbatim>\<open>stop\<close> calls no target and leaves the controller stopped with an empty queue.
\<close>

lemma no_target_operations:
  "(target s = None \<or> \<not> enabled (config s) \<longrightarrow>
      processChunk e content s = s \<and> processChunkWithPhonemes e content phonemes s = s) \<and>
   (target s = None \<longrightarrow>
      (onComplete s)\<lparr>queue := queue s\<rparr> = s \<and>
      \<not> list_ex isTargetCall (newEffects s (stop s)) \<and>
      target (stop s) = None \<and> \<not> isPlaying (stop s) \<and> queue (stop s) = [])"
  by (auto simp: processChunk_def processChunkWithPhonemes_def onComplete_def stop_def
      newEffects_def emit_def target_resetMouth_def isTargetCall_def Let_def
      split: option.splits)

text \<open>
  Claim C7. On the new controller, which has no target, \<^verbatim>\<open>onComplete()\<close> is no no-op:
  it appends the closing frame to the queue, where the frame stays until a target is
  registered and a chunk starts playback.
\<close>

theorem onComplete_without_target:
  "target newController = None \<and> queue newController = [] \<and>
   queue (onComplete newController)
     = [\<lparr>phoneme = Ph_closed, weight = 0, duration = 100\<rparr>] \<and>
   queue (onComplete (onComplete newController))
     = [\<lparr>phoneme = Ph_closed, weight = 0, duration = 100\<rparr>,
        \<lparr>phoneme = Ph_closed, weight = 0, duration = 100\<rparr>]"
  by (simp add: newController_def onComplete_def DEFAULT_CONFIG_def)

theorem onComplete_without_target_witness:
  "queue (onComplete newController) \<noteq> queue newController"
  using onComplete_without_target by simp

section \<open>Playback: the drained queue and the grace window\<close>

text \<open>
  Claim C6. During playback (\<^verbatim>\<open>isPlaying\<close>), when a tick finds the queue empty and
  the remaining time of the current frame at or below zero, then: if more than 500 ms
  have passed since the last chunk, the tick sets \<^verbatim>\<open>isPlaying\<close> to false, asks for no
  further animation frame and ends with \<^verbatim>\<open>resetMouth()\<close> on the target; if 500 ms or
  less have passed, the controller stays playing, the next animation frame is requested
  and no \<^verbatim>\<open>resetMouth()\<close> is called.
\<close>

theorem animate_queue_drained:
  assumes "isPlaying s" and "queue s = []"
    and "case currentFrame s of
           None \<Rightarrow> frameTimeRemaining s \<le> 0
         | Some f \<Rightarrow> frameTimeRemaining s - (time - lastTime s) \<le> 0"
  shows "if dateNow e - lastChunkTime s > 500
         then \<not> isPlaying (animate e time s) \<and>
              \<not> list_ex isRequestAnimationFrame (newEffects s (animate e time s)) \<and>
              (case target s of
                 Some t \<Rightarrow> effects (animate e time s) \<noteq> [] \<and>
                           last (effects (animate e time s)) = TargetResetMouth t
               | None \<Rightarrow> True)
         else isPlaying (animate e time s) \<and>
              animationTimer (animate e time s) = Some (rafHandle e) \<and>
              last (effects (animate e time s)) = RequestAnimationFrame (rafHandle e) \<and>
              \<not> list_ex isTargetResetMouth (newEffects s (animate e time s))"
  using assms
  by (auto simp: animate_def Let_def applyMouthShape_def emit_def target_resetMouth_def
      newEffects_def isRequestAnimationFrame_def isTargetResetMouth_def
      split: option.splits list.splits)

lemma speaking_state:
  "speaking =
     \<lparr>target = Some 1, config = DEFAULT_CONFIG, queue = [], isPlaying = True,
      animationTimer = Some 7, lastChunkTime = 1000, lastTime = 16, frameTimeRemaining = 80,
      currentFrame = Some \<lparr>phoneme = Ph_A, weight = 7 / 10, duration = 80\<rparr>,
      effects = [RequestAnimationFrame 7, RequestAnimationFrame 7]\<rparr>"
  by (simp add: speaking_def animate_def scenario_simps)

theorem animate_queue_drained_witness:
  "\<not> isPlaying (animate (browser 1600 (\<lambda>_. 0)) 116 speaking) \<and>
   last (effects (animate (browser 1600 (\<lambda>_. 0)) 116 speaking)) = TargetResetMouth 1 \<and>
   isPlaying (animate (browser 1110 (\<lambda>_. 0)) 116 speaking) \<and>
   animationTimer (animate (browser 1110 (\<lambda>_. 0)) 116 speaking) = Some 7 \<and>
   last (effects (animate (browser 1110 (\<lambda>_. 0)) 116 speaking)) = RequestAnimationFrame 7"
proof -
  have h: "isPlaying speaking" "queue speaking = []"
    "case currentFrame speaking of
       None \<Rightarrow> frameTimeRemaining speaking \<le> 0
     | Some f \<Rightarrow> frameTimeRemaining speaking - (116 - lastTime speaking) \<le> 0"
    by (simp_all add: speaking_state)
  have t: "target speaking = Some 1" "lastChunkTime speaking = 1000"
    by (simp_all add: speaking_state)
  show ?thesis
    using animate_queue_drained[OF h, of "browser 1600 (\<lambda>_. 0)"]
      animate_queue_drained[OF h, of "browser 1110 (\<lambda>_. 0)"]
    by (simp add: t browser_def)
qed

section \<open>Playback: the weights passed to the target\<close>

text \<open>The clamp of \<^verbatim>\<open>applyMouthShape\<close> brings every number but NaN into the interval.\<close>

lemma clamp_in_unit_interval:
  "w \<noteq> NaN \<Longrightarrow> in_unit_interval (js_max (Fin 0) (js_min (Fin 1) w))"
  by (cases w) (auto simp: js_min_def js_max_def)

lemma easedWeight_finite:
  "d \<noteq> 0 \<Longrightarrow>
   \<exists>x. js_mul (easeInOut (js_sub (Fin 1) (js_div (Fin r) (Fin d)))) (Fin w) = Fin x"
  by (simp add: easeInOut_def js_sub_def)

text \<open>
  While the current frame has a duration other than zero, the weight a tick passes to
  \<^verbatim>\<open>setMouthShape\<close> lies between 0 and 1, however far the frame has overrun.
\<close>

lemma animate_weights_in_unit_interval:
  assumes "case currentFrame s of Some f \<Rightarrow> duration f \<noteq> 0 | None \<Rightarrow> True"
  shows "list_all in_unit_interval (mouthWeights (newEffects s (animate e time s)))"
proof (cases "currentFrame s")
  case None
  then show ?thesis
    by (auto simp: animate_def Let_def emit_def target_resetMouth_def newEffects_def
        split: option.splits list.splits)
next
  case (Some f)
  with assms have d: "duration f \<noteq> 0" by simp
  obtain x where x:
    "js_mul (easeInOut (js_sub (Fin 1)
        (js_div (Fin (frameTimeRemaining s - (time - lastTime s))) (Fin (duration f)))))
       (Fin (weight f)) = Fin x"
    using easedWeight_finite[OF d] by blast
  have c: "in_unit_interval (js_max (Fin 0) (js_min (Fin 1) (Fin x)))"
    by (rule clamp_in_unit_interval) simp
  show ?thesis
    using Some x c
    by (auto simp: animate_def Let_def emit_def target_resetMouth_def newEffects_def
        applyMouthShape_def split: option.splits list.splits)
qed

lemma closing_state:
  "closing =
     \<lparr>target = Some 1,
      config = \<lparr>charDuration = 80, transitionDuration = 0, speakingWeight = 7 / 10,
                enabled = True\<rparr>,
      queue = [\<lparr>phoneme = Ph_A, weight = 7 / 10, duration = 80\<rparr>,
               \<lparr>phoneme = Ph_closed, weight = 0, duration = 0\<rparr>],
      isPlaying = True, animationTimer = Some 7, lastChunkTime = 1000, lastTime = 5,
      frameTimeRemaining = 0, currentFrame = None, effects = [RequestAnimationFrame 7]\<rparr>"
  by (simp add: closing_def onComplete_def setConfig_def scenario_simps)

text \<open>
  Claim C10. With \<^verbatim>\<open>transitionDuration\<close> set to 0, the closing frame of
  \<^verbatim>\<open>onComplete()\<close> has duration 0 and weight 0. On the tick after it became the current
  frame, the progress ratio is \<open>1 - (-16 / 0)\<close>, infinite; the eased weight is minus
  infinity times 0, which is NaN; \<^verbatim>\<open>Math.min\<close> and \<^verbatim>\<open>Math.max\<close> return NaN, and the
  playback loop calls \<^verbatim>\<open>setMouthShape("closed", NaN)\<close>: a weight outside the interval
  from 0 to 1. The frame before it, overrun by 20 ms, is clamped as the claim says.
\<close>

theorem playback_passes_NaN:
  "mouthWeights (effects (run_ticks
      [(browser 1010 (\<lambda>_. 0), 16), (browser 1110 (\<lambda>_. 0), 116),
       (browser 1126 (\<lambda>_. 0), 132)]
      closing))
   = [Fin (49 / 80), NaN] \<and> \<not> in_unit_interval NaN"
  by (simp add: closing_state browser_def animate_def Let_def applyMouthShape_def emit_def
      easeInOut_def js_sub_def js_min_def js_max_def signed_inf_def)

theorem playback_passes_NaN_witness:
  "\<not> list_all in_unit_interval
       (mouthWeights (effects (run_ticks
          [(browser 1010 (\<lambda>_. 0), 16), (browser 1110 (\<lambda>_. 0), 116),
           (browser 1126 (\<lambda>_. 0), 132)]
          closing)))"
  using playback_passes_NaN by simp

section \<open>Renderer registry: dispatch by path\<close>

lemmas registry_simps =
  getFactory_def createDefaultRendererRegistry_def register_def endsWith_def str_def
  toLowerCase_def lowerUnit_def Let_def

text \<open>
  Claim C2, as stated: a \<^verbatim>\<open>.glb\<close> file resolves to the VRM factory exactly when it
  contains VRM extension markers. It fails on a binary glTF file whose JSON chunk is
  \<^verbatim>\<open>{}\<close>: the file holds no marker, and the registry, which is given the path alone,
  resolves \<^verbatim>\<open>model.glb\<close> to the VRM factory.
\<close>

theorem registry_glb_counterexample:
  "\<not> (getFactory createDefaultRendererRegistry (str ''model.glb'') = Some VRMRendererFactory
        \<longleftrightarrow> detectVRMExtension (Some plain_glb))"
  by (simp add: registry_simps plain_glb_def detectVRMExtension_def getUint32_def
      hasVRMMarker_def)

text \<open>
  Claim C2, amended. For each of the six paths the default registry resolves exactly one
  factory, the first registered one whose \<^verbatim>\<open>canHandle\<close> accepts the path:
  \<^verbatim>\<open>model.vrm\<close> and \<^verbatim>\<open>model.glb\<close> resolve to the VRM factory, \<^verbatim>\<open>model.gltf\<close> to the
  glTF factory, \<^verbatim>\<open>avatar.fbx\<close> to the FBX factory, \<^verbatim>\<open>char.pmx\<close> to the MMD factory and
  \<^verbatim>\<open>scene.model3.json\<close> to the Live2D factory. The registry is given the path alone, so
  \<^verbatim>\<open>model.glb\<close> resolves to the VRM factory whatever the file contains. The file is
  looked into by \<^verbatim>\<open>loadModel\<close> of the model store: it types \<^verbatim>\<open>model.glb\<close> as vrm
  exactly when \<^verbatim>\<open>detectVRMExtension\<close> finds a marker in what was fetched, and as gltf
  otherwise.
\<close>

theorem registry_dispatch:
  "getFactory createDefaultRendererRegistry (str ''model.vrm'') = Some VRMRendererFactory \<and>
   getFactory createDefaultRendererRegistry (str ''model.glb'') = Some VRMRendererFactory \<and>
   getFactory createDefaultRendererRegistry (str ''model.gltf'') = Some GLTFRendererFactory \<and>
   getFactory createDefaultRendererRegistry (str ''avatar.fbx'') = Some FBXRendererFactory \<and>
   getFactory createDefaultRendererRegistry (str ''char.pmx'') = Some MMDRendererFactory \<and>
   getFactory createDefaultRendererRegistry (str ''scene.model3.json'')
     = Some Live2DRendererFactory \<and>
   loadModel_type (str ''model.glb'') fetched
     = (if detectVRMExtension fetched then vrm else gltf)"
  by (simp add: registry_simps loadModel_type_def)

theorem registry_dispatch_witness:
  "loadModel_type (str ''model.glb'') (Some plain_glb) = gltf \<and>
   loadModel_type (str ''model.glb'') (Some vrm_glb) = vrm \<and>
   getFactory createDefaultRendererRegistry (str ''model.glb'') = Some VRMRendererFactory"
proof -
  have "\<not> detectVRMExtension (Some plain_glb)" "detectVRMExtension (Some vrm_glb)"
    by (simp_all add: plain_glb_def vrm_glb_def str_def detectVRMExtension_def getUint32_def
        hasVRMMarker_def)
  then show ?thesis
    using registry_dispatch[of "Some plain_glb"] registry_dispatch[of "Some vrm_glb"]
    by simp
qed

end
